theory Spec2Isabelle
  imports Complex_Main
begin

section \<open>Data model of \<open>app.py\<close>\<close>

text \<open>
  The script is re-executed from top to bottom on every user interaction. One execution
  reads the widget values of that interaction, reads and updates \<open>st.session_state\<close>,
  calls external libraries, and renders output. The model below makes each of these
  explicit: the widget values are a record \<open>inputs\<close>, the session is a record
  \<open>session_state\<close> that is passed in and returned, the external libraries are the
  fields of a record \<open>env\<close> (each may raise, so each returns \<open>exn + result\<close>), and
  everything the run renders or calls is appended to a trace of \<open>event\<close>s.

  The model covers the script from \<open>vector_embedding\<close> on, in a process whose
  configuration lines (loading the two API keys and constructing \<open>llm\<close>) have run.
\<close>

subsection \<open>Python values\<close>

text \<open>A langchain \<open>Document\<close>: the text and its metadata dictionary.\<close>

record document =
  page_content :: string
  metadata :: "(string \<times> string) list"

text \<open>One entry of \<open>st.sidebar.file_uploader\<close>'s result.\<close>

record uploaded_file =
  upload_name :: string
  upload_data :: string

text \<open>
  The dictionary returned by \<open>retrieval_chain.invoke\<close>. The script reads two keys only,
  \<open>'context'\<close> and \<open>'answer'\<close>; \<open>None\<close> stands for an absent key.
\<close>

record response =
  "context" :: "document list option"
  answer :: "string option"

text \<open>Exceptions, with \<open>str_exn\<close> what \<open>f"{e}"\<close> prints.\<close>

datatype exn = Exception string | KeyError string

fun str_exn :: "exn \<Rightarrow> string" where
  "str_exn (Exception m) = m"
| "str_exn (KeyError k) = [CHR 0x27] @ k @ [CHR 0x27]"

subsection \<open>Session state\<close>

text \<open>
  The keys of \<open>st.session_state\<close> the script uses; \<open>None\<close> is "key not in session
  state". The embeddings client and the vector store are opaque objects of the external
  libraries (type parameters \<open>'e\<close> and \<open>'v\<close>); \<open>loader\<close> holds the directory the
  \<open>PyPDFDirectoryLoader\<close> was created for and \<open>text_splitter\<close> the chunk size and
  overlap of the \<open>RecursiveCharacterTextSplitter\<close>.
\<close>

record ('e, 'v) session_state =
  embeddings :: "'e option"
  loader :: "string option"
  docs :: "document list option"
  text_splitter :: "(nat \<times> nat) option"
  final_documents :: "document list option"
  vectors :: "'v option"
  query_history :: "string list option"

subsection \<open>Widget values of one run\<close>

record inputs =
  uploaded_files :: "uploaded_file list"
  create_vector_store_clicked :: bool
  prompt1 :: string

subsection \<open>External libraries\<close>

text \<open>
  Code that is not part of the repository is a parameter of the model:
  \<^item> \<open>GoogleGenerativeAIEmbeddings model\<close>: constructing the embeddings client;
  \<^item> \<open>loader_load dir\<close>: \<open>PyPDFDirectoryLoader(dir).load()\<close>;
  \<^item> \<open>split_documents size overlap ds\<close>:
    \<open>RecursiveCharacterTextSplitter(chunk_size, chunk_overlap).split_documents(ds)\<close>;
  \<^item> \<open>FAISS_from_documents ds e\<close>: embeds the chunks and builds the vector store;
  \<^item> \<open>retrieval_chain_invoke v q\<close>: the chain made by \<open>create_retrieval_chain\<close> from the
    retriever of store \<open>v\<close> and the stuff-documents chain over \<open>llm\<close> and
    \<open>prompt_template\<close>, invoked on \<open>{'input': q}\<close>: retrieval and the chat model call
    are one call from the script's point of view;
  \<^item> \<open>number_input label min max value\<close>: the value the page control returns;
  \<^item> \<open>elapsed\<close>: \<open>end - start\<close> of the two \<open>time.process_time()\<close> readings, already
    formatted with \<open>:.2f\<close>.
\<close>

record ('e, 'v) env =
  GoogleGenerativeAIEmbeddings :: "string \<Rightarrow> exn + 'e"
  loader_load :: "string \<Rightarrow> exn + document list"
  split_documents :: "nat \<Rightarrow> nat \<Rightarrow> document list \<Rightarrow> exn + document list"
  FAISS_from_documents :: "document list \<Rightarrow> 'e \<Rightarrow> exn + 'v"
  retrieval_chain_invoke :: "'v \<Rightarrow> string \<Rightarrow> exn + response"
  number_input :: "string \<Rightarrow> int \<Rightarrow> int \<Rightarrow> int \<Rightarrow> int"
  elapsed :: string

subsection \<open>Trace of a run\<close>

text \<open>
  The \<open>st.*\<close> calls that depend on data or control flow, and the calls into the external
  libraries, in the order the run makes them. Static decoration (titles, the CSS block,
  the history \<open>div\<close>, spinners) is left out.
\<close>

datatype event =
    Error string
  | Sidebar_error string
  | Sidebar_success string
  | Success string
  | Info string
  | Subheader string
  | Write string
  | Write2 string string
  | Markdown string
  | Number_input string int int int
  | Download_button string string string string
  | Call_GoogleGenerativeAIEmbeddings string
  | Call_load string
  | Call_split_documents "document list"
  | Call_from_documents "document list"
  | Call_invoke string

text \<open>How a run ends: it reaches the last line, or an uncaught exception stops it.\<close>

datatype outcome = Completed | Aborted exn

section \<open>Python primitives\<close>

text \<open>\<open>str(n)\<close> for an integer, as the f-string \<open>{i}\<close> prints it.\<close>

definition digit_char :: "nat \<Rightarrow> char" where
  "digit_char d = ''0123456789'' ! (d mod 10)"

function str_nat :: "nat \<Rightarrow> string" where
  "str_nat n = (if n < 10 then [digit_char n] else str_nat (n div 10) @ [digit_char n])"
  by pat_completeness auto
termination
  by (relation "measure id") auto

declare str_nat.simps [simp del]

definition str_int :: "int \<Rightarrow> string" where
  "str_int i = (if i < 0 then CHR ''-'' # str_nat (nat (- i)) else str_nat (nat i))"

text \<open>
  A slice bound \<open>i\<close> on a sequence of length \<open>n\<close>: a negative bound counts from the end,
  and every bound is clipped to \<open>[0, n]\<close>.
\<close>

definition slice_bound :: "nat \<Rightarrow> int \<Rightarrow> nat" where
  "slice_bound n i = (if i < 0 then nat (int n + i) else min n (nat i))"

text \<open>\<open>xs[start:end]\<close>\<close>

definition slice :: "'a list \<Rightarrow> int \<Rightarrow> int \<Rightarrow> 'a list" where
  "slice xs start end =
     (let a = slice_bound (length xs) start; b = slice_bound (length xs) end
      in take (b - a) (drop a xs))"

text \<open>\<open>xs[start:]\<close>\<close>

definition slice_from :: "'a list \<Rightarrow> int \<Rightarrow> 'a list" where
  "slice_from xs start = drop (slice_bound (length xs) start) xs"

text \<open>\<open>enumerate(xs, start=k)\<close>\<close>

fun enumerate_from :: "int \<Rightarrow> 'a list \<Rightarrow> (int \<times> 'a) list" where
  "enumerate_from k [] = []"
| "enumerate_from k (x # xs) = (k, x) # enumerate_from (k + 1) xs"

section \<open>The script\<close>

subsection \<open>\<open>vector_embedding\<close>\<close>

text \<open>
  The body of the \<open>try\<close> block, statement by statement. It returns the session as the
  statements executed so far have left it, the trace, and the exception that ended the
  block (\<open>None\<close> when the block ended normally or by \<open>return\<close>). The session is named
  after the line of the source whose assignments it already holds. The steps that can
  raise are the four calls into the libraries; creating the loader and the splitter only
  stores their constant arguments.
\<close>

definition try_body ::
  "('e, 'v) env \<Rightarrow> ('e, 'v) session_state \<Rightarrow> ('e, 'v) session_state \<times> event list \<times> exn option"
where
  "try_body env s =
     (case GoogleGenerativeAIEmbeddings env ''models/embedding-001'' of
        Inl e \<Rightarrow> (s, [Call_GoogleGenerativeAIEmbeddings ''models/embedding-001''], Some e)
      | Inr em \<Rightarrow>
          let s30 = s\<lparr>embeddings := Some em, loader := Some ''./us_census''\<rparr>;
              t30 = [Call_GoogleGenerativeAIEmbeddings ''models/embedding-001'',
                     Call_load ''./us_census'']
          in (case loader_load env ''./us_census'' of
                Inl e \<Rightarrow> (s30, t30, Some e)
              | Inr ds \<Rightarrow>
                  let s32 = s30\<lparr>docs := Some ds, text_splitter := Some (1000, 200)\<rparr>;
                      t32 = t30 @ [Call_split_documents ds]
                  in (case split_documents env 1000 200 ds of
                        Inl e \<Rightarrow> (s32, t32, Some e)
                      | Inr fd \<Rightarrow>
                          let s33 = s32\<lparr>final_documents := Some fd\<rparr>
                          in if fd = [] then
                               (s33, t32 @ [Error ''No documents were loaded or split correctly.''], None)
                             else if length fd = 0 then
                               (s33, t32 @ [Error ''No documents found in the provided directory.''], None)
                             else
                               (case FAISS_from_documents env fd em of
                                  Inl e \<Rightarrow> (s33, t32 @ [Call_from_documents fd], Some e)
                                | Inr v \<Rightarrow>
                                    (s33\<lparr>vectors := Some v\<rparr>,
                                     t32 @ [Call_from_documents fd,
                                            Sidebar_success ''Vector Store is ready!''],
                                     None)))))"

text \<open>
  The function: nothing at all when \<open>"vectors"\<close> is already in the session; otherwise
  the \<open>try\<close> block, and the \<open>except Exception as e\<close> handler when the block raised.
\<close>

definition vector_embedding ::
  "('e, 'v) env \<Rightarrow> ('e, 'v) session_state \<Rightarrow> ('e, 'v) session_state \<times> event list"
where
  "vector_embedding env s =
     (if vectors s = None then
        (case try_body env s of
           (s', t, None) \<Rightarrow> (s', t)
         | (s', t, Some e) \<Rightarrow>
             (s', t @ [Error (''Error creating FAISS vector store: '' @ str_exn e)]))
      else (s, []))"

subsection \<open>\<open>generate_insights\<close>\<close>

definition generate_insights :: "string \<Rightarrow> string" where
  "generate_insights doc_content = ''Summary of the document...''"

subsection \<open>Sidebar: the "Create Vector Store" button\<close>

definition sidebar ::
  "('e, 'v) env \<Rightarrow> inputs \<Rightarrow> ('e, 'v) session_state \<Rightarrow> ('e, 'v) session_state \<times> event list"
where
  "sidebar env inp s =
     (if create_vector_store_clicked inp then
        (if uploaded_files inp \<noteq> [] then vector_embedding env s
         else (s, [Sidebar_error ''Please upload PDF files before creating the vector store.'']))
      else (s, []))"

subsection \<open>Output section\<close>

text \<open>\<open>total_pages = len(response["context"]) // 5 + 1\<close>\<close>

definition total_pages :: "document list \<Rightarrow> int" where
  "total_pages ctx = int (length ctx) div 5 + 1"

text \<open>
  The pairs \<open>(i, doc)\<close> the loop of \<open>display_documents\<close> runs over, and what one
  iteration renders. The parameter \<open>docs\<close> of the source is \<open>ds\<close> here (\<open>docs\<close> is the
  session key).
\<close>

definition display_entries :: "document list \<Rightarrow> int \<Rightarrow> int \<Rightarrow> (int \<times> document) list" where
  "display_entries ds page docs_per_page =
     (let start = (page - 1) * docs_per_page;
          end = start + docs_per_page
      in enumerate_from (start + 1) (slice ds start end))"

definition display_entry :: "int \<times> document \<Rightarrow> event list" where
  "display_entry e =
     (case e of (i, doc) \<Rightarrow>
        [Markdown (''**Document '' @ str_int i @ '':**''),
         Write (page_content doc),
         Write2 ''**Summary:**'' (generate_insights (page_content doc)),
         Write ''---''])"

definition display_documents :: "document list \<Rightarrow> int \<Rightarrow> int \<Rightarrow> event list" where
  "display_documents ds page docs_per_page =
     concat (map display_entry (display_entries ds page docs_per_page))"

text \<open>
  The block under \<open>if prompt1:\<close>. It does not change the session. Its result is the
  trace and the uncaught exception that stopped the run there, if any: the chain call is
  not inside a \<open>try\<close>, and \<open>response['answer']\<close> raises \<open>KeyError\<close> on a response without
  that key.
\<close>

definition output_section ::
  "('e, 'v) env \<Rightarrow> inputs \<Rightarrow> ('e, 'v) session_state \<Rightarrow> event list \<times> exn option"
where
  "output_section env inp s =
     (if prompt1 inp \<noteq> [] then
        (case vectors s of
           Some v \<Rightarrow>
             (case retrieval_chain_invoke env v (prompt1 inp) of
                Inl e \<Rightarrow> ([Call_invoke (prompt1 inp)], Some e)
              | Inr response \<Rightarrow>
                  let t150 =
                        [Call_invoke (prompt1 inp),
                         Success (''Response generated in '' @ elapsed env @ '' seconds''),
                         Subheader ''Answer:'',
                         Write (case answer response of Some a \<Rightarrow> a | None \<Rightarrow> ''No answer found.'')]
                  in (case context response of
                        Some ctx \<Rightarrow>
                          let page_number = number_input env ''Page number'' 1 (total_pages ctx) 1;
                              t165 = t150 @ [Number_input ''Page number'' 1 (total_pages ctx) 1]
                                       @ display_documents ctx page_number 5
                          in (case answer response of
                                None \<Rightarrow> (t165, Some (KeyError ''answer''))
                              | Some a \<Rightarrow>
                                  (t165 @ [Download_button ''Download Answer'' a ''answer.txt'' ''text/plain''],
                                   None))
                      | None \<Rightarrow> (t150 @ [Error ''No relevant documents found.''], None)))
         | None \<Rightarrow>
             ([Error ''Vector store not initialized. Please create the vector store first using the sidebar.''],
              None))
      else ([Info ''Please enter a question above to get started.''], None))"

subsection \<open>Query history\<close>

text \<open>The stored list, read as empty while the key is absent.\<close>

definition history :: "('e, 'v) session_state \<Rightarrow> string list" where
  "history s = (case query_history s of None \<Rightarrow> [] | Some h \<Rightarrow> h)"

definition history_section ::
  "inputs \<Rightarrow> ('e, 'v) session_state \<Rightarrow> ('e, 'v) session_state \<times> event list"
where
  "history_section inp s =
     (let s182 = (if query_history s = None then s\<lparr>query_history := Some []\<rparr> else s);
          s185 = (if prompt1 inp \<noteq> []
                  then s182\<lparr>query_history := Some (history s182 @ [prompt1 inp])\<rparr>
                  else s182)
      in (s185, Subheader ''Query History'' # map Write (slice_from (history s185) (- 5))))"

subsection \<open>One run of the script\<close>

definition script ::
  "('e, 'v) env \<Rightarrow> inputs \<Rightarrow> ('e, 'v) session_state
     \<Rightarrow> outcome \<times> ('e, 'v) session_state \<times> event list"
where
  "script env inp s =
     (case sidebar env inp s of (s64, t64) \<Rightarrow>
        (case output_section env inp s64 of
           (t178, Some e) \<Rightarrow> (Aborted e, s64, t64 @ Subheader ''Ask a Question'' # t178)
         | (t178, None) \<Rightarrow>
             (case history_section inp s64 of (s191, t191) \<Rightarrow>
                (Completed, s191, t64 @ Subheader ''Ask a Question'' # t178 @ t191))))"

subsection \<open>A session: the script run once per interaction\<close>

text \<open>
  The framework runs the script once for each interaction and carries
  \<open>st.session_state\<close> from one run to the next, also after a run that an exception
  stopped. \<open>session_runs\<close> gives the outcome and trace of every run and the session
  after the last one; the external world may answer differently in each run.
\<close>

fun session_runs ::
  "(('e, 'v) env \<times> inputs) list \<Rightarrow> ('e, 'v) session_state
     \<Rightarrow> (outcome \<times> event list) list \<times> ('e, 'v) session_state"
where
  "session_runs [] s = ([], s)"
| "session_runs ((env, inp) # rest) s =
     (case script env inp s of (oc, s', t) \<Rightarrow>
        (case session_runs rest s' of (rs, s'') \<Rightarrow> ((oc, t) # rs, s'')))"

subsection \<open>Reading a trace\<close>

text \<open>The questions the retrieval chain was invoked on, in order.\<close>

definition chain_calls :: "event list \<Rightarrow> string list" where
  "chain_calls t = concat (map (\<lambda>ev. case ev of Call_invoke q \<Rightarrow> [q] | _ \<Rightarrow> []) t)"

text \<open>The chunk lists handed to \<open>FAISS.from_documents\<close> for embedding and indexing.\<close>

definition embedding_calls :: "event list \<Rightarrow> document list list" where
  "embedding_calls t = concat (map (\<lambda>ev. case ev of Call_from_documents fd \<Rightarrow> [fd] | _ \<Rightarrow> []) t)"

text \<open>The messages shown by \<open>st.error\<close> and \<open>st.sidebar.error\<close>.\<close>

definition error_messages :: "event list \<Rightarrow> string list" where
  "error_messages t =
     concat (map (\<lambda>ev. case ev of Error m \<Rightarrow> [m] | Sidebar_error m \<Rightarrow> [m] | _ \<Rightarrow> []) t)"

text \<open>
  The documents a trace shows: each header rendered by \<open>st.markdown\<close> with the text
  written right after it.
\<close>

fun shown_documents :: "event list \<Rightarrow> (string \<times> string) list" where
  "shown_documents (Markdown h # Write c # t) = (h, c) # shown_documents t"
| "shown_documents (ev # t) = shown_documents t"
| "shown_documents [] = []"


section \<open>The libraries behind the index and the chain\<close>

text \<open>
  The vector index, the retriever and the retrieval chain are library code (\<open>FAISS\<close>,
  \<open>as_retriever\<close>, \<open>create_retrieval_chain\<close>, \<open>create_stuff_documents_chain\<close>) that the
  script only calls. The definitions of this section follow what the spec says of them.
\<close>








section \<open>Example sessions\<close>

text \<open>
  Concrete libraries, sessions and interactions on which the script is evaluated below.
  In \<open>example_env\<close> the embeddings client is its model name, the directory
  \<open>./us_census\<close> holds one page, the splitter returns the pages as chunks, a vector store
  is the list of the chunk texts it indexes, and the chain answers with every indexed
  chunk as context.
\<close>

definition Document :: "string \<Rightarrow> document" where
  "Document text = \<lparr>page_content = text, metadata = []\<rparr>"

definition example_env :: "(string, string list) env" where
  "example_env =
     \<lparr>GoogleGenerativeAIEmbeddings = (\<lambda>model. Inr model),
      loader_load = (\<lambda>dir. if dir = ''./us_census'' then Inr [Document ''census page''] else Inr []),
      split_documents = (\<lambda>chunk_size chunk_overlap ds. Inr ds),
      FAISS_from_documents = (\<lambda>ds e. Inr (map page_content ds)),
      retrieval_chain_invoke =
        (\<lambda>v q. Inr \<lparr>context = Some (map Document v), answer = Some ''an answer''\<rparr>),
      number_input = (\<lambda>label min_value max_value value. value),
      elapsed = ''0.01''\<rparr>"

text \<open>The response has no \<open>'context'\<close> key.\<close>

definition env_no_context_key :: "(string, string list) env" where
  "env_no_context_key =
     example_env\<lparr>retrieval_chain_invoke :=
       (\<lambda>v q. Inr \<lparr>context = None, answer = Some ''an answer''\<rparr>)\<rparr>"

text \<open>The chat service is down: every chain call raises.\<close>

definition env_chain_down :: "(string, string list) env" where
  "env_chain_down =
     example_env\<lparr>retrieval_chain_invoke := (\<lambda>v q. Inl (Exception ''service unavailable''))\<rparr>"

text \<open>The chain call raises on the question \<open>q3\<close> and answers every other question.\<close>

definition env_q3_fails :: "(string, string list) env" where
  "env_q3_fails =
     example_env\<lparr>retrieval_chain_invoke :=
       (\<lambda>v q. if q = ''q3'' then Inl (Exception ''rate limit reached'')
              else Inr \<lparr>context = Some (map Document v), answer = Some ''an answer''\<rparr>)\<rparr>"

text \<open>The splitter yields no chunk.\<close>

definition env_no_chunks :: "(string, string list) env" where
  "env_no_chunks = example_env\<lparr>split_documents := (\<lambda>chunk_size chunk_overlap ds. Inr [])\<rparr>"

text \<open>The embedding service rejects the request made by \<open>FAISS.from_documents\<close>.\<close>

definition env_embedding_fails :: "(string, string list) env" where
  "env_embedding_fails =
     example_env\<lparr>FAISS_from_documents := (\<lambda>ds e. Inl (Exception ''API key not valid''))\<rparr>"

text \<open>A session with no key set, and one whose index was built earlier.\<close>

definition fresh_session :: "(string, string list) session_state" where
  "fresh_session =
     \<lparr>embeddings = None, loader = None, docs = None, text_splitter = None,
      final_documents = None, vectors = None, query_history = None\<rparr>"

definition indexed_session :: "(string, string list) session_state" where
  "indexed_session = fresh_session\<lparr>vectors := Some [''old index'']\<rparr>"

text \<open>Interactions: submitting a question, and clicking the button with the given uploads.\<close>

definition ask :: "string \<Rightarrow> inputs" where
  "ask q = \<lparr>uploaded_files = [], create_vector_store_clicked = False, prompt1 = q\<rparr>"

definition click_create :: "uploaded_file list \<Rightarrow> inputs" where
  "click_create files = \<lparr>uploaded_files = files, create_vector_store_clicked = True, prompt1 = []\<rparr>"

definition my_upload :: uploaded_file where
  "my_upload = \<lparr>upload_name = ''mine.pdf'', upload_data = ''my own text''\<rparr>"

definition other_upload :: uploaded_file where
  "other_upload = \<lparr>upload_name = ''other.pdf'', upload_data = ''some other text''\<rparr>"




text \<open>Six supporting chunks.\<close>

definition six_chunks :: "document list" where
  "six_chunks = map Document [''a'', ''b'', ''c'', ''d'', ''e'', ''f'']"

section \<open>Lemmas\<close>

subsection \<open>Pagination\<close>

lemma enumerate_from_append:
  "enumerate_from k (xs @ ys) = enumerate_from k xs @ enumerate_from (k + int (length xs)) ys"
  by (induction xs arbitrary: k) (auto simp: algebra_simps)

lemma display_entries_page:
  "display_entries ds (int k + 1) 5 = enumerate_from (int (5 * k) + 1) (take 5 (drop (5 * k) ds))"
proof -
  have a: "slice_bound (length ds) (int k * 5) = min (length ds) (5 * k)"
    by (simp add: slice_bound_def nat_mult_distrib mult.commute)
  have b: "slice_bound (length ds) (int k * 5 + 5) = min (length ds) (5 * k + 5)"
    by (simp add: slice_bound_def nat_add_distrib nat_mult_distrib mult.commute)
  have "slice ds (int k * 5) (int k * 5 + 5) = take 5 (drop (5 * k) ds)"
    unfolding slice_def Let_def a b
    by (cases "5 * k \<le> length ds") (auto simp: min_def)
  then show ?thesis
    by (simp add: display_entries_def Let_def mult.commute)
qed

lemma pages_concat:
  "concat (map (\<lambda>k. display_entries ds (int k + 1) 5) [0..<n]) = enumerate_from 1 (take (5 * n) ds)"
proof (induction n)
  case 0
  show ?case by simp
next
  case (Suc n)
  have "5 * Suc n = 5 * n + 5" by simp
  then have split: "take (5 * Suc n) ds = take (5 * n) ds @ take 5 (drop (5 * n) ds)"
    by (simp only: take_add)
  show ?case
  proof (cases "5 * n \<le> length ds")
    case True
    then have "length (take (5 * n) ds) = 5 * n" by simp
    then show ?thesis
      using Suc by (simp only: split enumerate_from_append upt_Suc_append le0 map_append concat_append display_entries_page) (simp add: add.commute)
  next
    case False
    then show ?thesis using Suc by (simp add: display_entries_page)
  qed
qed

lemma upto_pages: "[1..int n] = map (\<lambda>k. int k + 1) [0..<n]"
proof (induction n)
  case 0 show ?case by simp
next
  case (Suc n)
  have "[1..int (Suc n)] = [1..int n] @ [int n + 1]"
    by (simp add: upto_rec2 add.commute)
  then show ?case using Suc by simp
qed

lemma ceiling_pages: "\<lceil>real (length ds) / 5\<rceil> = int ((length ds + 4) div 5)"
proof -
  have "\<lceil>real (length ds) / 5\<rceil> = \<lceil>(of_int (int (length ds)) :: real) / of_int 5\<rceil>" by simp
  also have "\<dots> = - (- int (length ds) div 5)" by (rule ceiling_divide_eq_div)
  also have "\<dots> = int ((length ds + 4) div 5)" by (simp add: zdiv_int)
  finally show ?thesis .
qed

lemma concat_map_concat:
  "concat (map (\<lambda>x. concat (map g (f x))) xs) = concat (map g (concat (map f xs)))"
  by (induction xs) auto

subsection \<open>Traces and sections of the script\<close>

lemma chain_calls_append: "chain_calls (a @ b) = chain_calls a @ chain_calls b"
  by (simp add: chain_calls_def)

lemma chain_calls_Cons: "chain_calls (ev # t) = (case ev of Call_invoke q \<Rightarrow> [q] | _ \<Rightarrow> []) @ chain_calls t"
  by (simp add: chain_calls_def)

lemma chain_calls_Nil: "chain_calls [] = []"
  by (simp add: chain_calls_def)



lemma vector_embedding_present: "vectors s = Some v \<Longrightarrow> vector_embedding env s = (s, [])"
  by (simp add: vector_embedding_def)

lemma chain_calls_try_body: "chain_calls (fst (snd (try_body env s))) = []"
  by (simp add: try_body_def chain_calls_def Let_def split: sum.splits)

lemma chain_calls_vector_embedding: "chain_calls (snd (vector_embedding env s)) = []"
  using chain_calls_try_body [of env s]
  by (cases "try_body env s") (auto simp: vector_embedding_def chain_calls_append chain_calls_Cons chain_calls_Nil split: option.splits)

lemma chain_calls_sidebar: "chain_calls (snd (sidebar env inp s)) = []"
  by (simp add: sidebar_def chain_calls_vector_embedding chain_calls_Cons chain_calls_Nil)

lemma script_trace:
  "snd (snd (script env inp s)) =
     snd (sidebar env inp s) @ Subheader ''Ask a Question'' # fst (output_section env inp (fst (sidebar env inp s)))
       @ (case snd (output_section env inp (fst (sidebar env inp s))) of
            Some e \<Rightarrow> [] | None \<Rightarrow> snd (history_section inp (fst (sidebar env inp s))))"
  by (cases "sidebar env inp s"; cases "output_section env inp (fst (sidebar env inp s))")
     (auto simp: script_def split: option.splits prod.splits)

lemma script_outcome:
  "fst (script env inp s) =
     (case snd (output_section env inp (fst (sidebar env inp s))) of Some e \<Rightarrow> Aborted e | None \<Rightarrow> Completed)"
  by (cases "sidebar env inp s"; cases "output_section env inp (fst (sidebar env inp s))")
     (auto simp: script_def split: option.splits prod.splits)

lemma script_state:
  "fst (snd (script env inp s)) =
     (case snd (output_section env inp (fst (sidebar env inp s))) of
        Some e \<Rightarrow> fst (sidebar env inp s)
      | None \<Rightarrow> fst (history_section inp (fst (sidebar env inp s))))"
  by (cases "sidebar env inp s"; cases "output_section env inp (fst (sidebar env inp s))")
     (auto simp: script_def split: option.splits prod.splits)

lemma chain_calls_history_section: "chain_calls (snd (history_section inp s)) = []"
proof -
  have "chain_calls (map Write xs) = []" for xs
    by (induction xs) (simp_all add: chain_calls_Cons chain_calls_Nil)
  then show ?thesis by (simp add: history_section_def Let_def chain_calls_Cons)
qed

lemma output_section_not_ready:
  "vectors s = None \<Longrightarrow> prompt1 inp \<noteq> [] \<Longrightarrow>
   output_section env inp s =
     ([Error ''Vector store not initialized. Please create the vector store first using the sidebar.''], None)"
  by (simp add: output_section_def)

subsection \<open>Error messages of the sections\<close>




subsection \<open>The output section with an index\<close>


subsection \<open>The page count\<close>



subsection \<open>Query history across a run\<close>

lemma query_history_sidebar: "query_history (fst (sidebar env inp s)) = query_history s"
  by (simp add: sidebar_def vector_embedding_def try_body_def Let_def split: sum.splits)

lemma history_sidebar: "history (fst (sidebar env inp s)) = history s"
  by (simp add: history_def query_history_sidebar)

lemma history_section_append:
  "prompt1 inp \<noteq> [] \<Longrightarrow>
   query_history (fst (history_section inp s)) = Some (history s @ [prompt1 inp])"
  by (simp add: history_section_def history_def Let_def split: option.splits)

lemma history_section_display:
  "snd (history_section inp s) =
     Subheader ''Query History'' # map Write (slice_from (history (fst (history_section inp s))) (- 5))"
  by (simp add: history_section_def Let_def)

lemma history_Some: "query_history s = Some h \<Longrightarrow> history s = h"
  by (simp add: history_def)

lemma script_completed:
  assumes "fst (script env inp s) = Completed" and "prompt1 inp \<noteq> []"
  shows "query_history (fst (snd (script env inp s))) = Some (history s @ [prompt1 inp])"
    and "\<exists>pre. snd (snd (script env inp s)) =
           pre @ Subheader ''Query History'' # map Write (slice_from (history s @ [prompt1 inp]) (- 5))"
proof -
  from assms(1) have n: "snd (output_section env inp (fst (sidebar env inp s))) = None"
    by (simp add: script_outcome split: option.splits)
  show q: "query_history (fst (snd (script env inp s))) = Some (history s @ [prompt1 inp])"
    using assms(2) by (simp add: script_state n history_section_append history_sidebar)
  have "snd (snd (script env inp s)) =
      (snd (sidebar env inp s) @ Subheader ''Ask a Question'' # fst (output_section env inp (fst (sidebar env inp s))))
      @ Subheader ''Query History'' # map Write (slice_from (history s @ [prompt1 inp]) (- 5))"
    using assms(2)
    by (simp add: script_trace n history_section_display history_Some [OF history_section_append] history_sidebar)
  then show "\<exists>pre. snd (snd (script env inp s)) =
           pre @ Subheader ''Query History'' # map Write (slice_from (history s @ [prompt1 inp]) (- 5))"
    by blast
qed

lemma script_aborted:
  assumes "fst (script env inp s) = Aborted e"
  shows "query_history (fst (snd (script env inp s))) = query_history s"
proof -
  from assms have "snd (output_section env inp (fst (sidebar env inp s))) = Some e"
    by (simp add: script_outcome split: option.splits)
  then show ?thesis by (simp add: script_state query_history_sidebar)
qed

lemma last_five: "slice_from (h @ [q1, q2, q3, q4, q5, q6]) (- 5) = [q2, q3, q4, q5, q6]"
proof -
  have "slice_bound (length (h @ [q1, q2, q3, q4, q5, q6])) (- 5) = Suc (length h)"
    by (simp add: slice_bound_def nat_add_distrib)
  then show ?thesis by (simp add: slice_from_def)
qed

subsection \<open>The build\<close>

lemma try_body_split_called:
  assumes "Call_split_documents ds \<in> set (fst (snd (try_body env s)))"
  shows "\<exists>em. GoogleGenerativeAIEmbeddings env ''models/embedding-001'' = Inr em
           \<and> loader_load env ''./us_census'' = Inr ds"
  using assms by (auto simp: try_body_def Let_def split: sum.splits if_splits)

lemma try_body_no_chunks:
  assumes "GoogleGenerativeAIEmbeddings env ''models/embedding-001'' = Inr em"
    and "loader_load env ''./us_census'' = Inr ds"
    and "split_documents env 1000 200 ds = Inr []"
  shows "try_body env s =
     (s\<lparr>embeddings := Some em, loader := Some ''./us_census'', docs := Some ds,
        text_splitter := Some (1000, 200), final_documents := Some []\<rparr>,
      [Call_GoogleGenerativeAIEmbeddings ''models/embedding-001'', Call_load ''./us_census'',
       Call_split_documents ds, Error ''No documents were loaded or split correctly.''],
      None)"
  using assms by (simp add: try_body_def)

lemma sidebar_split_called:
  assumes "Call_split_documents ds \<in> set (snd (sidebar env inp s))"
  shows "uploaded_files inp \<noteq> [] \<and> vectors s = None
    \<and> sidebar env inp s = vector_embedding env s
    \<and> Call_split_documents ds \<in> set (fst (snd (try_body env s)))"
  using assms
  by (cases "try_body env s")
     (auto simp: sidebar_def vector_embedding_def split: if_splits option.splits)

lemma try_body_raised_vectors:
  "snd (snd (try_body env s)) = Some e \<Longrightarrow> vectors (fst (try_body env s)) = vectors s"
  by (auto simp: try_body_def Let_def split: sum.splits if_splits)

lemma try_body_raises:
  assumes "(Call_GoogleGenerativeAIEmbeddings m \<in> set (fst (snd (try_body env s)))
              \<and> GoogleGenerativeAIEmbeddings env m = Inl e)
         \<or> (Call_load d \<in> set (fst (snd (try_body env s))) \<and> loader_load env d = Inl e)
         \<or> (Call_split_documents ds \<in> set (fst (snd (try_body env s)))
              \<and> split_documents env 1000 200 ds = Inl e)
         \<or> (Call_from_documents fd \<in> set (fst (snd (try_body env s)))
              \<and> GoogleGenerativeAIEmbeddings env ''models/embedding-001'' = Inr em
              \<and> FAISS_from_documents env fd em = Inl e)"
  shows "snd (snd (try_body env s)) = Some e"
  using assms by (auto simp: try_body_def Let_def split: sum.splits if_splits)

lemma sidebar_build_called:
  assumes "Call_GoogleGenerativeAIEmbeddings m \<in> set (snd (sidebar env inp s))
         \<or> Call_load d \<in> set (snd (sidebar env inp s))
         \<or> Call_split_documents ds \<in> set (snd (sidebar env inp s))
         \<or> Call_from_documents fd \<in> set (snd (sidebar env inp s))"
  shows "vectors s = None \<and> sidebar env inp s = vector_embedding env s"
  using assms by (auto simp: sidebar_def vector_embedding_def split: if_splits)

lemma vector_embedding_trace:
  "vectors s = None \<Longrightarrow>
   snd (vector_embedding env s) =
     fst (snd (try_body env s)) @
       (case snd (snd (try_body env s)) of None \<Rightarrow> []
        | Some e \<Rightarrow> [Error (''Error creating FAISS vector store: '' @ str_exn e)])"
  by (cases "try_body env s") (auto simp: vector_embedding_def split: option.splits)

lemma vector_embedding_state:
  "vectors s = None \<Longrightarrow> fst (vector_embedding env s) = fst (try_body env s)"
  by (cases "try_body env s") (auto simp: vector_embedding_def split: option.splits)

subsection \<open>Rendering of the pages\<close>

lemma enumerate_from_zip: "enumerate_from k xs = zip [k..k + int (length xs) - 1] xs"
proof (induction xs arbitrary: k)
  case Nil
  show ?case by simp
next
  case (Cons x xs)
  have "[k..k + int (length (x # xs)) - 1] = k # [k + 1..k + 1 + int (length xs) - 1]"
    by (subst upto_rec1) (simp_all add: algebra_simps)
  then show ?case by (simp add: Cons.IH)
qed

lemma shown_documents_entries:
  "shown_documents (concat (map display_entry es) @ t) =
     map (\<lambda>e. (''**Document '' @ str_int (fst e) @ '':**'', page_content (snd e))) es @ shown_documents t"
  by (induction es) (auto simp: display_entry_def)

lemma map_zip_snd: "length xs = length ys \<Longrightarrow> map (\<lambda>e. f (snd e)) (zip xs ys) = map f ys"
  by (induction xs ys rule: list_induct2) auto

lemma map_zip_fst: "length xs = length ys \<Longrightarrow> map (\<lambda>e. f (fst e)) (zip xs ys) = map f xs"
  by (induction xs ys rule: list_induct2) auto

lemma str_int_digit: "0 \<le> i \<Longrightarrow> i < 10 \<Longrightarrow> str_int i = [''0123456789'' ! nat i]"
  by (simp add: str_int_def str_nat.simps digit_char_def)

subsection \<open>The page control\<close>









subsection \<open>The index and the chain of the libraries\<close>











section \<open>Claims\<close>



text \<open>
  C2, as the code has it. A "Create Vector Store" action with at least one uploaded file,
  in a session without an index, builds the index from the chunks of the documents that
  \<open>PyPDFDirectoryLoader\<close> loads from the fixed directory \<open>./us_census\<close> (when client
  construction, loading, splitting and embedding succeed and there is at least one
  chunk). The uploaded files only enable the action: any other non-empty upload gives
  the same session and the same trace.
\<close>

theorem C2:
  assumes "create_vector_store_clicked inp" and "uploaded_files inp \<noteq> []"
    and "vectors s = None"
    and "GoogleGenerativeAIEmbeddings env ''models/embedding-001'' = Inr em"
    and "loader_load env ''./us_census'' = Inr ds"
    and "split_documents env 1000 200 ds = Inr fd" and "fd \<noteq> []"
    and "FAISS_from_documents env fd em = Inr v"
    and "create_vector_store_clicked inp'" and "uploaded_files inp' \<noteq> []"
  shows "vectors (fst (sidebar env inp s)) = Some v
    \<and> snd (sidebar env inp s) =
        [Call_GoogleGenerativeAIEmbeddings ''models/embedding-001'', Call_load ''./us_census'',
         Call_split_documents ds, Call_from_documents fd, Sidebar_success ''Vector Store is ready!'']
    \<and> sidebar env inp' s = sidebar env inp s"
  using assms by (simp add: sidebar_def vector_embedding_def try_body_def)

text \<open>
  C2 at concrete inputs: two different uploads, the same index over the page of the
  directory.
\<close>

theorem C2_witness:
  "create_vector_store_clicked (click_create [my_upload])
   \<and> uploaded_files (click_create [my_upload]) \<noteq> []
   \<and> vectors fresh_session = None
   \<and> GoogleGenerativeAIEmbeddings example_env ''models/embedding-001'' = Inr ''models/embedding-001''
   \<and> loader_load example_env ''./us_census'' = Inr [Document ''census page'']
   \<and> split_documents example_env 1000 200 [Document ''census page''] = Inr [Document ''census page'']
   \<and> [Document ''census page''] \<noteq> []
   \<and> FAISS_from_documents example_env [Document ''census page''] ''models/embedding-001'' = Inr [''census page'']
   \<and> create_vector_store_clicked (click_create [other_upload])
   \<and> uploaded_files (click_create [other_upload]) \<noteq> []
   \<and> vectors (fst (sidebar example_env (click_create [my_upload]) fresh_session)) = Some [''census page'']
   \<and> sidebar example_env (click_create [other_upload]) fresh_session
       = sidebar example_env (click_create [my_upload]) fresh_session"
proof -
  have a: "create_vector_store_clicked (click_create [my_upload])" by (simp add: click_create_def)
  have b: "uploaded_files (click_create [my_upload]) \<noteq> []" by (simp add: click_create_def)
  have c: "vectors fresh_session = None" by (simp add: fresh_session_def)
  have d: "GoogleGenerativeAIEmbeddings example_env ''models/embedding-001'' = Inr ''models/embedding-001''"
    by (simp add: example_env_def)
  have e: "loader_load example_env ''./us_census'' = Inr [Document ''census page'']"
    by (simp add: example_env_def)
  have f: "split_documents example_env 1000 200 [Document ''census page''] = Inr [Document ''census page'']"
    by (simp add: example_env_def)
  have g: "[Document ''census page''] \<noteq> []" by simp
  have h: "FAISS_from_documents example_env [Document ''census page''] ''models/embedding-001'' = Inr [''census page'']"
    by (simp add: example_env_def Document_def)
  have i: "create_vector_store_clicked (click_create [other_upload])" by (simp add: click_create_def)
  have j: "uploaded_files (click_create [other_upload]) \<noteq> []" by (simp add: click_create_def)
  show ?thesis using a b c d e f g h i j C2 [OF a b c d e f g h i j] by simp
qed

text \<open>
  C2 as stated fails. The user uploads a file with the text \<open>my own text\<close> (or one with
  \<open>some other text\<close>); an index over that text would be \<open>[''my own text'']\<close>, but the
  index that the run installs holds \<open>census page\<close>, the text found in \<open>./us_census\<close>,
  and nothing of the upload.
\<close>

theorem C2_counterexample:
  "vectors (fst (snd (script example_env (click_create [my_upload]) fresh_session))) = Some [''census page'']
   \<and> upload_data my_upload = ''my own text''
   \<and> FAISS_from_documents example_env [Document (upload_data my_upload)] ''models/embedding-001''
       = Inr [''my own text'']
   \<and> vectors (fst (snd (script example_env (click_create [other_upload]) fresh_session))) = Some [''census page'']
   \<and> upload_data other_upload = ''some other text''"
  by (simp add: script_def sidebar_def vector_embedding_def try_body_def output_section_def
      history_section_def history_def slice_from_def slice_bound_def example_env_def
      click_create_def fresh_session_def my_upload_def other_upload_def Document_def)

text \<open>
  C3, as the code has it. When the session already holds an index, the "Create Vector
  Store" action with uploaded files is skipped by the guard of \<open>vector_embedding\<close>: the
  session, and so the existing index, is returned unchanged, no library is called and
  nothing is rendered.
\<close>

theorem C3:
  assumes "vectors s = Some v" and "create_vector_store_clicked inp" and "uploaded_files inp \<noteq> []"
  shows "sidebar env inp s = (s, [])"
  using assms by (simp add: sidebar_def vector_embedding_present)

text \<open>
  C3 at a concrete input: the index \<open>[''old index'']\<close> stays, and the embedding service
  that would have failed is never reached.
\<close>

theorem C3_witness:
  "vectors indexed_session = Some [''old index'']
   \<and> create_vector_store_clicked (click_create [my_upload])
   \<and> uploaded_files (click_create [my_upload]) \<noteq> []
   \<and> sidebar env_embedding_fails (click_create [my_upload]) indexed_session = (indexed_session, [])"
proof -
  have a: "vectors indexed_session = Some [''old index'']"
    by (simp add: indexed_session_def fresh_session_def)
  have b: "create_vector_store_clicked (click_create [my_upload])"
    by (simp add: click_create_def)
  have c: "uploaded_files (click_create [my_upload]) \<noteq> []"
    by (simp add: click_create_def)
  show ?thesis using a b c C3 [OF a b c] by simp
qed

text \<open>
  C3 as stated fails: the libraries would build the index \<open>[''census page'']\<close> (as they
  do from a fresh session), but with the index \<open>[''old index'']\<close> in the session the
  action leaves the session as it is and the trace empty.
\<close>

theorem C3_counterexample:
  "sidebar example_env (click_create [my_upload]) indexed_session = (indexed_session, [])
   \<and> vectors indexed_session = Some [''old index'']
   \<and> vectors (fst (sidebar example_env (click_create [my_upload]) fresh_session)) = Some [''census page'']"
  by (simp add: sidebar_def vector_embedding_def try_body_def example_env_def click_create_def
      indexed_session_def fresh_session_def my_upload_def Document_def)



text \<open>
  C5. For every list of supporting chunks, what \<open>display_documents\<close> renders on the pages
  \<open>1..ceil(N/5)\<close>, one page after the other, is for each chunk in order, numbered
  \<open>1..N\<close>, its header, its text, the summary line and the rule, and nothing else: the
  texts shown are exactly the texts of the chunks, each once; the headers shown are
  \<open>Document 1\<close> to \<open>Document N\<close>; the loop entries of all pages together are the
  chunks paired with \<open>1..N\<close>.
\<close>

theorem C5:
  "concat (map (\<lambda>page. display_documents ds page 5) [1..\<lceil>real (length ds) / 5\<rceil>]) =
     concat (map (\<lambda>(i, doc).
         [Markdown (''**Document '' @ str_int i @ '':**''),
          Write (page_content doc),
          Write2 ''**Summary:**'' ''Summary of the document...'',
          Write ''---''])
       (zip [1..int (length ds)] ds))
   \<and> map snd (shown_documents
        (concat (map (\<lambda>page. display_documents ds page 5) [1..\<lceil>real (length ds) / 5\<rceil>])))
       = map page_content ds
   \<and> map fst (shown_documents
        (concat (map (\<lambda>page. display_documents ds page 5) [1..\<lceil>real (length ds) / 5\<rceil>])))
       = map (\<lambda>i. ''**Document '' @ str_int i @ '':**'') [1..int (length ds)]
   \<and> concat (map (\<lambda>page. display_entries ds page 5) [1..\<lceil>real (length ds) / 5\<rceil>])
       = zip [1..int (length ds)] ds"
proof -
  let ?n = "(length ds + 4) div 5"
  let ?pages = "[1..\<lceil>real (length ds) / 5\<rceil>]"
  let ?out = "concat (map (\<lambda>page. display_documents ds page 5) ?pages)"
  have numbered: "enumerate_from 1 ds = zip [1..int (length ds)] ds"
    using enumerate_from_zip [of 1 ds] by simp
  have full: "take (5 * ?n) ds = ds" by (rule take_all) presburger
  have entries: "concat (map (\<lambda>page. display_entries ds page 5) ?pages) = zip [1..int (length ds)] ds"
    using pages_concat [of ds ?n] by (simp add: ceiling_pages upto_pages comp_def full numbered)
  have out: "?out = concat (map display_entry (zip [1..int (length ds)] ds))"
    by (simp add: display_documents_def concat_map_concat entries)
  have len: "length [1..int (length ds)] = length ds" by simp
  have rendered: "?out = concat (map (\<lambda>(i, doc).
         [Markdown (''**Document '' @ str_int i @ '':**''),
          Write (page_content doc),
          Write2 ''**Summary:**'' ''Summary of the document...'',
          Write ''---''])
       (zip [1..int (length ds)] ds))"
    unfolding out
    by (rule arg_cong [where f = concat], rule map_cong)
       (auto simp: display_entry_def generate_insights_def)
  have shown: "shown_documents ?out =
      map (\<lambda>e. (''**Document '' @ str_int (fst e) @ '':**'', page_content (snd e)))
        (zip [1..int (length ds)] ds)"
    using shown_documents_entries [of "zip [1..int (length ds)] ds" "[]"] by (simp add: out)
  have texts: "map snd (shown_documents ?out) = map page_content ds"
    unfolding shown by (simp add: comp_def map_zip_snd [OF len])
  have headers: "map fst (shown_documents ?out)
      = map (\<lambda>i. ''**Document '' @ str_int i @ '':**'') [1..int (length ds)]"
    unfolding shown
    using map_zip_fst [OF len, where f = "\<lambda>i. ''**Document '' @ str_int i @ '':**''"]
    by (simp add: comp_def)
  from rendered texts headers entries show ?thesis by blast
qed

text \<open>
  C5 at a concrete input: six chunks, five on page 1 and the sixth on page 2.
\<close>

theorem C5_witness:
  "display_documents six_chunks 1 5 @ display_documents six_chunks 2 5 =
     [Markdown ''**Document 1:**'', Write ''a'', Write2 ''**Summary:**'' ''Summary of the document...'', Write ''---'',
      Markdown ''**Document 2:**'', Write ''b'', Write2 ''**Summary:**'' ''Summary of the document...'', Write ''---'',
      Markdown ''**Document 3:**'', Write ''c'', Write2 ''**Summary:**'' ''Summary of the document...'', Write ''---'',
      Markdown ''**Document 4:**'', Write ''d'', Write2 ''**Summary:**'' ''Summary of the document...'', Write ''---'',
      Markdown ''**Document 5:**'', Write ''e'', Write2 ''**Summary:**'' ''Summary of the document...'', Write ''---'',
      Markdown ''**Document 6:**'', Write ''f'', Write2 ''**Summary:**'' ''Summary of the document...'', Write ''---'']
   \<and> map snd (shown_documents (display_documents six_chunks 1 5 @ display_documents six_chunks 2 5))
       = [''a'', ''b'', ''c'', ''d'', ''e'', ''f'']"
proof -
  have n: "length six_chunks = 6" by (simp add: six_chunks_def)
  have pages: "[1..\<lceil>real (length six_chunks) / 5\<rceil>] = [1, 2]"
    by (simp add: n upto_rec1)
  have numbers: "[1..int (length six_chunks)] = [1, 2, 3, 4, 5, 6]"
    by (simp add: n upto_rec1)
  show ?thesis
    using C5 [of six_chunks] unfolding pages numbers
    by (simp add: six_chunks_def Document_def str_int_digit)
qed

text \<open>
  C6. When the session holds no index at the time the question is handled (none was built
  before and none by the sidebar of this run) and the question is non-empty, the run
  shows the index-not-ready error, never invokes the retrieval chain (the only path to
  the retriever and to the chat model), and reaches its end.
\<close>

theorem C6:
  assumes "vectors (fst (sidebar env inp s)) = None" and "prompt1 inp \<noteq> []"
  shows "fst (script env inp s) = Completed
    \<and> Error ''Vector store not initialized. Please create the vector store first using the sidebar.''
        \<in> set (snd (snd (script env inp s)))
    \<and> chain_calls (snd (snd (script env inp s))) = []"
  using assms
  by (simp add: script_trace script_outcome output_section_not_ready chain_calls_append
      chain_calls_Cons chain_calls_sidebar chain_calls_history_section chain_calls_Nil)

text \<open>
  C6 at a concrete input: a question in a fresh session.
\<close>

theorem C6_witness:
  "vectors (fst (sidebar example_env (ask ''What is the population?'') fresh_session)) = None
   \<and> prompt1 (ask ''What is the population?'') \<noteq> []
   \<and> fst (script example_env (ask ''What is the population?'') fresh_session) = Completed
   \<and> Error ''Vector store not initialized. Please create the vector store first using the sidebar.''
        \<in> set (snd (snd (script example_env (ask ''What is the population?'') fresh_session)))
   \<and> chain_calls (snd (snd (script example_env (ask ''What is the population?'') fresh_session))) = []"
proof -
  have a: "vectors (fst (sidebar example_env (ask ''What is the population?'') fresh_session)) = None"
    by (simp add: sidebar_def ask_def fresh_session_def)
  have b: "prompt1 (ask ''What is the population?'') \<noteq> []"
    by (simp add: ask_def)
  show ?thesis using a b C6 [OF a b] by simp
qed

text \<open>
  C7, as the code has it. Six runs with non-empty questions \<open>q1..q6\<close>, each of which
  reaches the end of the script: the stored history is the history before them followed
  by all six in order, and the last run displays exactly \<open>[q2, q3, q4, q5, q6]\<close> under
  "Query History".
\<close>

theorem C7:
  assumes runs: "session_runs [(e1, i1), (e2, i2), (e3, i3), (e4, i4), (e5, i5), (e6, i6)] s0 = (rs, s6)"
    and completed: "map fst rs = [Completed, Completed, Completed, Completed, Completed, Completed]"
    and q1: "prompt1 i1 \<noteq> []" and q2: "prompt1 i2 \<noteq> []" and q3: "prompt1 i3 \<noteq> []"
    and q4: "prompt1 i4 \<noteq> []" and q5: "prompt1 i5 \<noteq> []" and q6: "prompt1 i6 \<noteq> []"
  shows "query_history s6 =
           Some (history s0 @ [prompt1 i1, prompt1 i2, prompt1 i3, prompt1 i4, prompt1 i5, prompt1 i6])
    \<and> (\<exists>pre. snd (rs ! 5) =
           pre @ Subheader ''Query History''
             # map Write [prompt1 i2, prompt1 i3, prompt1 i4, prompt1 i5, prompt1 i6])"
proof -
  define s1 where "s1 = fst (snd (script e1 i1 s0))"
  define s2 where "s2 = fst (snd (script e2 i2 s1))"
  define s3 where "s3 = fst (snd (script e3 i3 s2))"
  define s4 where "s4 = fst (snd (script e4 i4 s3))"
  define s5 where "s5 = fst (snd (script e5 i5 s4))"
  have rs: "rs = [(fst (script e1 i1 s0), snd (snd (script e1 i1 s0))),
                  (fst (script e2 i2 s1), snd (snd (script e2 i2 s1))),
                  (fst (script e3 i3 s2), snd (snd (script e3 i3 s2))),
                  (fst (script e4 i4 s3), snd (snd (script e4 i4 s3))),
                  (fst (script e5 i5 s4), snd (snd (script e5 i5 s4))),
                  (fst (script e6 i6 s5), snd (snd (script e6 i6 s5)))]"
    and s6: "s6 = fst (snd (script e6 i6 s5))"
    using runs unfolding s1_def s2_def s3_def s4_def s5_def
    by (auto simp: split_beta)
  from completed rs have c1: "fst (script e1 i1 s0) = Completed" and c2: "fst (script e2 i2 s1) = Completed"
    and c3: "fst (script e3 i3 s2) = Completed" and c4: "fst (script e4 i4 s3) = Completed"
    and c5: "fst (script e5 i5 s4) = Completed" and c6: "fst (script e6 i6 s5) = Completed"
    by simp_all
  have h1: "history s1 = history s0 @ [prompt1 i1]"
    unfolding s1_def by (rule history_Some [OF script_completed(1) [OF c1 q1]])
  have h2: "history s2 = history s1 @ [prompt1 i2]"
    unfolding s2_def by (rule history_Some [OF script_completed(1) [OF c2 q2]])
  have h3: "history s3 = history s2 @ [prompt1 i3]"
    unfolding s3_def by (rule history_Some [OF script_completed(1) [OF c3 q3]])
  have h4: "history s4 = history s3 @ [prompt1 i4]"
    unfolding s4_def by (rule history_Some [OF script_completed(1) [OF c4 q4]])
  have h5: "history s5 = history s4 @ [prompt1 i5]"
    unfolding s5_def by (rule history_Some [OF script_completed(1) [OF c5 q5]])
  have h: "history s5 @ [prompt1 i6] =
      history s0 @ [prompt1 i1, prompt1 i2, prompt1 i3, prompt1 i4, prompt1 i5, prompt1 i6]"
    by (simp add: h1 h2 h3 h4 h5)
  have stored: "query_history s6 =
      Some (history s0 @ [prompt1 i1, prompt1 i2, prompt1 i3, prompt1 i4, prompt1 i5, prompt1 i6])"
    using script_completed(1) [OF c6 q6] by (simp add: s6 h)
  have shown: "\<exists>pre. snd (rs ! 5) =
      pre @ Subheader ''Query History'' # map Write [prompt1 i2, prompt1 i3, prompt1 i4, prompt1 i5, prompt1 i6]"
    using script_completed(2) [OF c6 q6] by (simp add: rs h last_five)
  from stored shown show ?thesis by simp
qed

text \<open>
  C7 at a concrete input: six questions in a fresh session (every run shows the
  index-not-ready error and reaches its end).
\<close>

theorem C7_witness:
  "map fst (fst (session_runs
      [(example_env, ask ''q1''), (example_env, ask ''q2''), (example_env, ask ''q3''),
       (example_env, ask ''q4''), (example_env, ask ''q5''), (example_env, ask ''q6'')] fresh_session))
     = [Completed, Completed, Completed, Completed, Completed, Completed]
   \<and> query_history (snd (session_runs
      [(example_env, ask ''q1''), (example_env, ask ''q2''), (example_env, ask ''q3''),
       (example_env, ask ''q4''), (example_env, ask ''q5''), (example_env, ask ''q6'')] fresh_session))
     = Some [''q1'', ''q2'', ''q3'', ''q4'', ''q5'', ''q6'']
   \<and> (\<exists>pre. snd (fst (session_runs
      [(example_env, ask ''q1''), (example_env, ask ''q2''), (example_env, ask ''q3''),
       (example_env, ask ''q4''), (example_env, ask ''q5''), (example_env, ask ''q6'')] fresh_session) ! 5)
     = pre @ Subheader ''Query History'' # map Write [''q2'', ''q3'', ''q4'', ''q5'', ''q6''])"
proof -
  let ?runs = "session_runs
      [(example_env, ask ''q1''), (example_env, ask ''q2''), (example_env, ask ''q3''),
       (example_env, ask ''q4''), (example_env, ask ''q5''), (example_env, ask ''q6'')] fresh_session"
  have not_ready: "script example_env (ask q) (fresh_session\<lparr>query_history := h\<rparr>) =
      (Completed,
       fresh_session\<lparr>query_history := Some ((case h of None \<Rightarrow> [] | Some x \<Rightarrow> x) @ [q])\<rparr>,
       [Subheader ''Ask a Question'',
        Error ''Vector store not initialized. Please create the vector store first using the sidebar.'',
        Subheader ''Query History'']
       @ map Write (slice_from ((case h of None \<Rightarrow> [] | Some x \<Rightarrow> x) @ [q]) (- 5)))"
    if "q \<noteq> []" for q h
    using that
    by (simp add: script_def sidebar_def output_section_def history_section_def history_def
        ask_def fresh_session_def split: option.splits)
  have i: "fresh_session = fresh_session\<lparr>query_history := None\<rparr>"
    by (simp add: fresh_session_def)
  have r: "?runs = (fst ?runs, snd ?runs)" by simp
  have c: "map fst (fst ?runs) = [Completed, Completed, Completed, Completed, Completed, Completed]"
    by (subst i) (simp add: not_ready)
  have q: "prompt1 (ask ''q1'') \<noteq> []" "prompt1 (ask ''q2'') \<noteq> []" "prompt1 (ask ''q3'') \<noteq> []"
    "prompt1 (ask ''q4'') \<noteq> []" "prompt1 (ask ''q5'') \<noteq> []" "prompt1 (ask ''q6'') \<noteq> []"
    by (simp_all add: ask_def)
  have p: "prompt1 (ask ''q1'') = ''q1''" "prompt1 (ask ''q2'') = ''q2''" "prompt1 (ask ''q3'') = ''q3''"
    "prompt1 (ask ''q4'') = ''q4''" "prompt1 (ask ''q5'') = ''q5''" "prompt1 (ask ''q6'') = ''q6''"
    by (simp_all add: ask_def)
  have h: "history fresh_session = []"
    by (simp add: history_def fresh_session_def)
  show ?thesis
    using c C7 [OF r c q] by (simp add: p h)
qed

text \<open>
  C7 as stated fails. The chain call of the third question raises; that run stops at the
  call, before the append, and after the six questions the stored history is
  \<open>[q1, q2, q4, q5, q6]\<close>.
\<close>

theorem C7_counterexample:
  "map fst (fst (session_runs
      [(env_q3_fails, ask ''q1''), (env_q3_fails, ask ''q2''), (env_q3_fails, ask ''q3''),
       (env_q3_fails, ask ''q4''), (env_q3_fails, ask ''q5''), (env_q3_fails, ask ''q6'')] indexed_session))
     = [Completed, Completed, Aborted (Exception ''rate limit reached''), Completed, Completed, Completed]
   \<and> snd (session_runs
      [(env_q3_fails, ask ''q1''), (env_q3_fails, ask ''q2''), (env_q3_fails, ask ''q3''),
       (env_q3_fails, ask ''q4''), (env_q3_fails, ask ''q5''), (env_q3_fails, ask ''q6'')] indexed_session)
     = indexed_session\<lparr>query_history := Some [''q1'', ''q2'', ''q4'', ''q5'', ''q6'']\<rparr>"
proof -
  have sb: "sidebar env_q3_fails (ask q) s = (s, [])" for q s
    by (simp add: sidebar_def ask_def)
  have os: "snd (output_section env_q3_fails (ask q) (indexed_session\<lparr>query_history := h\<rparr>)) = None"
    if "q \<noteq> []" "q \<noteq> ''q3''" for q h
    using that
    by (simp add: output_section_def env_q3_fails_def example_env_def ask_def indexed_session_def
        fresh_session_def Let_def)
  have hs: "fst (history_section (ask q) (indexed_session\<lparr>query_history := h\<rparr>))
      = indexed_session\<lparr>query_history := Some ((case h of None \<Rightarrow> [] | Some x \<Rightarrow> x) @ [q])\<rparr>"
    if "q \<noteq> []" for q h
    using that
    by (simp add: history_section_def history_def ask_def indexed_session_def fresh_session_def
        split: option.splits)
  have ok: "fst (script env_q3_fails (ask q) (indexed_session\<lparr>query_history := h\<rparr>)) = Completed
      \<and> fst (snd (script env_q3_fails (ask q) (indexed_session\<lparr>query_history := h\<rparr>)))
          = indexed_session\<lparr>query_history := Some ((case h of None \<Rightarrow> [] | Some x \<Rightarrow> x) @ [q])\<rparr>"
    if "q \<noteq> []" "q \<noteq> ''q3''" for q h
    using that by (simp add: script_outcome script_state sb os hs)
  have ko: "script env_q3_fails (ask ''q3'') (indexed_session\<lparr>query_history := h\<rparr>) =
      (Aborted (Exception ''rate limit reached''), indexed_session\<lparr>query_history := h\<rparr>,
       [Subheader ''Ask a Question'', Call_invoke ''q3''])" for h
    by (simp add: script_def sb)
      (simp add: output_section_def env_q3_fails_def example_env_def ask_def indexed_session_def
        fresh_session_def)
  have i: "indexed_session = indexed_session\<lparr>query_history := None\<rparr>"
    by (simp add: indexed_session_def fresh_session_def)
  show ?thesis
    apply (subst (1 2) i)
    apply (simp add: split_beta ok ko)
    done
qed

text \<open>
  C8. A "Create Vector Store" action with no uploaded file, or one in which the splitter
  was called and returned no chunk, shows exactly one error message, never calls
  \<open>FAISS.from_documents\<close> (the call that embeds the chunks and constructs the index),
  and leaves the \<open>vectors\<close> key of the session as it was.
\<close>

theorem C8:
  assumes "create_vector_store_clicked inp"
    and "uploaded_files inp = []
         \<or> (\<exists>ds. Call_split_documents ds \<in> set (snd (sidebar env inp s))
                \<and> split_documents env 1000 200 ds = Inr [])"
  shows "error_messages (snd (sidebar env inp s)) =
           [if uploaded_files inp = [] then ''Please upload PDF files before creating the vector store.''
            else ''No documents were loaded or split correctly.'']
    \<and> embedding_calls (snd (sidebar env inp s)) = []
    \<and> vectors (fst (sidebar env inp s)) = vectors s"
proof (cases "uploaded_files inp = []")
  case True
  with assms(1) show ?thesis
    by (simp add: sidebar_def error_messages_def embedding_calls_def)
next
  case False
  with assms(2) obtain ds where called: "Call_split_documents ds \<in> set (snd (sidebar env inp s))"
    and empty: "split_documents env 1000 200 ds = Inr []"
    by blast
  from sidebar_split_called [OF called]
  have absent: "vectors s = None" and sb: "sidebar env inp s = vector_embedding env s"
    and tb: "Call_split_documents ds \<in> set (fst (snd (try_body env s)))"
    by simp_all
  from try_body_split_called [OF tb] obtain em
    where em: "GoogleGenerativeAIEmbeddings env ''models/embedding-001'' = Inr em"
      and ld: "loader_load env ''./us_census'' = Inr ds"
    by blast
  show ?thesis
    using False absent
    by (simp add: sb vector_embedding_def try_body_no_chunks [OF em ld empty]
        error_messages_def embedding_calls_def)
qed

text \<open>
  C8 at concrete inputs: no upload with an index in the session (the index stays), and a
  splitter that yields no chunk in a fresh session.
\<close>

theorem C8_witness:
  "create_vector_store_clicked (click_create [])
   \<and> uploaded_files (click_create []) = []
   \<and> error_messages (snd (sidebar example_env (click_create []) indexed_session))
       = [''Please upload PDF files before creating the vector store.'']
   \<and> embedding_calls (snd (sidebar example_env (click_create []) indexed_session)) = []
   \<and> vectors (fst (sidebar example_env (click_create []) indexed_session)) = Some [''old index'']
   \<and> create_vector_store_clicked (click_create [my_upload])
   \<and> Call_split_documents [Document ''census page'']
        \<in> set (snd (sidebar env_no_chunks (click_create [my_upload]) fresh_session))
   \<and> split_documents env_no_chunks 1000 200 [Document ''census page''] = Inr []
   \<and> error_messages (snd (sidebar env_no_chunks (click_create [my_upload]) fresh_session))
       = [''No documents were loaded or split correctly.'']
   \<and> embedding_calls (snd (sidebar env_no_chunks (click_create [my_upload]) fresh_session)) = []
   \<and> vectors (fst (sidebar env_no_chunks (click_create [my_upload]) fresh_session)) = None"
proof -
  have a: "create_vector_store_clicked (click_create [])" by (simp add: click_create_def)
  have b: "uploaded_files (click_create []) = []" by (simp add: click_create_def)
  have c: "create_vector_store_clicked (click_create [my_upload])" by (simp add: click_create_def)
  have d: "Call_split_documents [Document ''census page'']
        \<in> set (snd (sidebar env_no_chunks (click_create [my_upload]) fresh_session))"
    by (simp add: sidebar_def vector_embedding_def try_body_def click_create_def fresh_session_def
        env_no_chunks_def example_env_def)
  have e: "split_documents env_no_chunks 1000 200 [Document ''census page''] = Inr []"
    by (simp add: env_no_chunks_def example_env_def)
  have f: "uploaded_files (click_create [my_upload]) \<noteq> []" by (simp add: click_create_def)
  have g: "vectors indexed_session = Some [''old index'']" "vectors fresh_session = None"
    by (simp_all add: indexed_session_def fresh_session_def)
  have first: "uploaded_files (click_create []) = []
         \<or> (\<exists>ds. Call_split_documents ds \<in> set (snd (sidebar example_env (click_create []) indexed_session))
                \<and> split_documents example_env 1000 200 ds = Inr [])"
    using b by simp
  have second: "uploaded_files (click_create [my_upload]) = []
         \<or> (\<exists>ds. Call_split_documents ds \<in> set (snd (sidebar env_no_chunks (click_create [my_upload]) fresh_session))
                \<and> split_documents env_no_chunks 1000 200 ds = Inr [])"
    using d e by blast
  show ?thesis
    using a b c d e C8 [OF a first] C8 [OF c second] by (simp add: f g)
qed

text \<open>
  C9. In a "Create Vector Store" action in which a step that was called raised \<open>e\<close>
  (constructing the embeddings client, loading the directory, splitting, or
  \<open>FAISS.from_documents\<close>), the \<open>vectors\<close> key is not set: it was absent before the
  action and is absent after it; and the error message
  \<open>Error creating FAISS vector store: \<close> followed by \<open>str(e)\<close> is shown.
\<close>

theorem C9:
  assumes "(Call_GoogleGenerativeAIEmbeddings m \<in> set (snd (sidebar env inp s))
              \<and> GoogleGenerativeAIEmbeddings env m = Inl e)
         \<or> (Call_load d \<in> set (snd (sidebar env inp s)) \<and> loader_load env d = Inl e)
         \<or> (Call_split_documents ds \<in> set (snd (sidebar env inp s))
              \<and> split_documents env 1000 200 ds = Inl e)
         \<or> (Call_from_documents fd \<in> set (snd (sidebar env inp s))
              \<and> GoogleGenerativeAIEmbeddings env ''models/embedding-001'' = Inr em
              \<and> FAISS_from_documents env fd em = Inl e)"
  shows "vectors (fst (sidebar env inp s)) = vectors s
    \<and> vectors (fst (sidebar env inp s)) = None
    \<and> Error (''Error creating FAISS vector store: '' @ str_exn e) \<in> set (snd (sidebar env inp s))"
proof -
  from assms have "Call_GoogleGenerativeAIEmbeddings m \<in> set (snd (sidebar env inp s))
         \<or> Call_load d \<in> set (snd (sidebar env inp s))
         \<or> Call_split_documents ds \<in> set (snd (sidebar env inp s))
         \<or> Call_from_documents fd \<in> set (snd (sidebar env inp s))"
    by blast
  from sidebar_build_called [OF this]
  have absent: "vectors s = None" and sb: "sidebar env inp s = vector_embedding env s"
    by simp_all
  have no_error: "Call_GoogleGenerativeAIEmbeddings m \<noteq> Error x" "Call_load d \<noteq> Error x"
    "Call_split_documents ds \<noteq> Error x" "Call_from_documents fd \<noteq> Error x" for x
    by simp_all
  have "snd (snd (try_body env s)) = Some e"
  proof (rule try_body_raises)
    show "(Call_GoogleGenerativeAIEmbeddings m \<in> set (fst (snd (try_body env s)))
              \<and> GoogleGenerativeAIEmbeddings env m = Inl e)
         \<or> (Call_load d \<in> set (fst (snd (try_body env s))) \<and> loader_load env d = Inl e)
         \<or> (Call_split_documents ds \<in> set (fst (snd (try_body env s)))
              \<and> split_documents env 1000 200 ds = Inl e)
         \<or> (Call_from_documents fd \<in> set (fst (snd (try_body env s)))
              \<and> GoogleGenerativeAIEmbeddings env ''models/embedding-001'' = Inr em
              \<and> FAISS_from_documents env fd em = Inl e)"
      using assms unfolding sb vector_embedding_trace [OF absent]
      by (auto split: option.splits)
  qed
  then show ?thesis
    using absent try_body_raised_vectors [of env s e]
    by (simp add: sb vector_embedding_trace vector_embedding_state)
qed

text \<open>
  C9 at a concrete input: the embedding service rejects the request of
  \<open>FAISS.from_documents\<close>.
\<close>

theorem C9_witness:
  "Call_from_documents [Document ''census page'']
      \<in> set (snd (sidebar env_embedding_fails (click_create [my_upload]) fresh_session))
   \<and> GoogleGenerativeAIEmbeddings env_embedding_fails ''models/embedding-001'' = Inr ''models/embedding-001''
   \<and> FAISS_from_documents env_embedding_fails [Document ''census page''] ''models/embedding-001''
       = Inl (Exception ''API key not valid'')
   \<and> vectors (fst (sidebar env_embedding_fails (click_create [my_upload]) fresh_session)) = None
   \<and> Error ''Error creating FAISS vector store: API key not valid''
       \<in> set (snd (sidebar env_embedding_fails (click_create [my_upload]) fresh_session))"
proof -
  have a: "Call_from_documents [Document ''census page'']
      \<in> set (snd (sidebar env_embedding_fails (click_create [my_upload]) fresh_session))"
    by (simp add: sidebar_def vector_embedding_def try_body_def click_create_def fresh_session_def
        env_embedding_fails_def example_env_def)
  have b: "GoogleGenerativeAIEmbeddings env_embedding_fails ''models/embedding-001'' = Inr ''models/embedding-001''"
    by (simp add: env_embedding_fails_def example_env_def)
  have c: "FAISS_from_documents env_embedding_fails [Document ''census page''] ''models/embedding-001''
       = Inl (Exception ''API key not valid'')"
    by (simp add: env_embedding_fails_def example_env_def)
  have h: "(Call_GoogleGenerativeAIEmbeddings [] \<in> set (snd (sidebar env_embedding_fails (click_create [my_upload]) fresh_session))
              \<and> GoogleGenerativeAIEmbeddings env_embedding_fails [] = Inl (Exception ''API key not valid''))
         \<or> (Call_load [] \<in> set (snd (sidebar env_embedding_fails (click_create [my_upload]) fresh_session))
              \<and> loader_load env_embedding_fails [] = Inl (Exception ''API key not valid''))
         \<or> (Call_split_documents [] \<in> set (snd (sidebar env_embedding_fails (click_create [my_upload]) fresh_session))
              \<and> split_documents env_embedding_fails 1000 200 [] = Inl (Exception ''API key not valid''))
         \<or> (Call_from_documents [Document ''census page'']
                \<in> set (snd (sidebar env_embedding_fails (click_create [my_upload]) fresh_session))
              \<and> GoogleGenerativeAIEmbeddings env_embedding_fails ''models/embedding-001'' = Inr ''models/embedding-001''
              \<and> FAISS_from_documents env_embedding_fails [Document ''census page''] ''models/embedding-001''
                  = Inl (Exception ''API key not valid''))"
    using a b c by blast
  from C9 [OF h]
  have v: "vectors (fst (sidebar env_embedding_fails (click_create [my_upload]) fresh_session)) = None"
    and er: "Error (''Error creating FAISS vector store: '' @ str_exn (Exception ''API key not valid''))
       \<in> set (snd (sidebar env_embedding_fails (click_create [my_upload]) fresh_session))"
    by blast+
  show ?thesis using a b c v er by simp
qed

text \<open>
  C10, as the code has it. A non-empty question is appended to the stored history
  exactly when its run reaches the history section. That is so whenever the session has
  no index (the index-not-ready path), and with an index whenever the chain returns a
  response that has no \<open>'context'\<close> key or has an \<open>'answer'\<close> key. When the chain call
  raises, the run stops there; a run that an exception stopped leaves the stored history
  as it was.
\<close>

theorem C10:
  assumes "prompt1 inp \<noteq> []"
  shows "(fst (script env inp s) = Completed
            \<longrightarrow> query_history (fst (snd (script env inp s))) = Some (history s @ [prompt1 inp]))
    \<and> (vectors (fst (sidebar env inp s)) = None \<longrightarrow> fst (script env inp s) = Completed)
    \<and> (\<forall>v r. vectors (fst (sidebar env inp s)) = Some v
               \<and> retrieval_chain_invoke env v (prompt1 inp) = Inr r
               \<and> (context r = None \<or> answer r \<noteq> None)
            \<longrightarrow> fst (script env inp s) = Completed)
    \<and> (\<forall>v e. vectors (fst (sidebar env inp s)) = Some v
               \<and> retrieval_chain_invoke env v (prompt1 inp) = Inl e
            \<longrightarrow> fst (script env inp s) = Aborted e)
    \<and> (\<forall>e. fst (script env inp s) = Aborted e
            \<longrightarrow> query_history (fst (snd (script env inp s))) = query_history s)"
proof (intro conjI allI impI)
  assume "fst (script env inp s) = Completed"
  then show "query_history (fst (snd (script env inp s))) = Some (history s @ [prompt1 inp])"
    using assms by (rule script_completed(1))
next
  assume "vectors (fst (sidebar env inp s)) = None"
  then show "fst (script env inp s) = Completed"
    using assms by (simp add: script_outcome output_section_not_ready)
next
  fix v r
  assume "vectors (fst (sidebar env inp s)) = Some v
               \<and> retrieval_chain_invoke env v (prompt1 inp) = Inr r
               \<and> (context r = None \<or> answer r \<noteq> None)"
  then show "fst (script env inp s) = Completed"
    using assms by (auto simp: script_outcome output_section_def Let_def split: option.splits)
next
  fix v e
  assume "vectors (fst (sidebar env inp s)) = Some v
               \<and> retrieval_chain_invoke env v (prompt1 inp) = Inl e"
  then show "fst (script env inp s) = Aborted e"
    using assms by (simp add: script_outcome output_section_def)
next
  fix e
  assume "fst (script env inp s) = Aborted e"
  then show "query_history (fst (snd (script env inp s))) = query_history s"
    by (rule script_aborted)
qed

text \<open>
  C10 at concrete inputs: a question in a fresh session is appended; a question whose
  chain call raises is not; a question whose response has no \<open>'context'\<close> key is.
\<close>

theorem C10_witness:
  "prompt1 (ask ''q'') \<noteq> []
   \<and> vectors (fst (sidebar example_env (ask ''q'') fresh_session)) = None
   \<and> fst (script example_env (ask ''q'') fresh_session) = Completed
   \<and> query_history (fst (snd (script example_env (ask ''q'') fresh_session))) = Some [''q'']
   \<and> vectors (fst (sidebar env_chain_down (ask ''q'') indexed_session)) = Some [''old index'']
   \<and> retrieval_chain_invoke env_chain_down [''old index''] (prompt1 (ask ''q''))
       = Inl (Exception ''service unavailable'')
   \<and> fst (script env_chain_down (ask ''q'') indexed_session) = Aborted (Exception ''service unavailable'')
   \<and> query_history (fst (snd (script env_chain_down (ask ''q'') indexed_session))) = None
   \<and> vectors (fst (sidebar env_no_context_key (ask ''q'') indexed_session)) = Some [''old index'']
   \<and> retrieval_chain_invoke env_no_context_key [''old index''] (prompt1 (ask ''q''))
       = Inr \<lparr>context = None, answer = Some ''an answer''\<rparr>
   \<and> fst (script env_no_context_key (ask ''q'') indexed_session) = Completed
   \<and> query_history (fst (snd (script env_no_context_key (ask ''q'') indexed_session))) = Some [''q'']"
proof -
  have a: "prompt1 (ask ''q'') \<noteq> []" by (simp add: ask_def)
  have b: "vectors (fst (sidebar example_env (ask ''q'') fresh_session)) = None"
    by (simp add: sidebar_def ask_def fresh_session_def)
  have c: "vectors (fst (sidebar env_chain_down (ask ''q'') indexed_session)) = Some [''old index'']"
    by (simp add: sidebar_def ask_def indexed_session_def fresh_session_def)
  have d: "retrieval_chain_invoke env_chain_down [''old index''] (prompt1 (ask ''q''))
       = Inl (Exception ''service unavailable'')"
    by (simp add: env_chain_down_def example_env_def)
  have c': "vectors (fst (sidebar env_no_context_key (ask ''q'') indexed_session)) = Some [''old index'']"
    by (simp add: sidebar_def ask_def indexed_session_def fresh_session_def)
  have d': "retrieval_chain_invoke env_no_context_key [''old index''] (prompt1 (ask ''q''))
       = Inr \<lparr>context = None, answer = Some ''an answer''\<rparr>"
    by (simp add: env_no_context_key_def example_env_def)
  have e: "history fresh_session = []" "query_history indexed_session = None" "prompt1 (ask ''q'') = ''q''"
    "history indexed_session = []"
    by (simp_all add: history_def fresh_session_def indexed_session_def ask_def)
  show ?thesis
    using a b c d c' d' C10 [OF a, of example_env fresh_session]
      C10 [OF a, of env_chain_down indexed_session] C10 [OF a, of env_no_context_key indexed_session]
    by (simp add: e)
qed

text \<open>
  C10 as stated fails. The chat service is down: the run of the question \<open>q\<close> stops at
  the chain call, and the session, whose history key was absent, is unchanged.
\<close>

theorem C10_counterexample:
  "script env_chain_down (ask ''q'') indexed_session =
     (Aborted (Exception ''service unavailable''), indexed_session,
      [Subheader ''Ask a Question'', Call_invoke ''q''])
   \<and> query_history indexed_session = None"
  by (simp add: script_def sidebar_def output_section_def env_chain_down_def example_env_def
      ask_def indexed_session_def fresh_session_def)

end
